theory Spec2Isabelle
  imports Complex_Main "HOL-Library.AList"
begin

section \<open>JavaScript values, objects and the store\<close>

text \<open>
  The module \<^verbatim>\<open>src/format.js\<close> works on plain JavaScript data: primitives, dates and
  objects used as records. Objects are mutable and shared, so they live in a store and a
  value only holds a reference to one. An object is the list of its own enumerable
  properties in insertion order; the store is the list of all objects, an address being
  an index into it. Allocation appends, nothing is ever freed.

  Not modelled: functions as values, arrays, getters, the prototype chain and the
  wrapper properties of primitives (a read of a property of a primitive yields
  \<^verbatim>\<open>undefined\<close>).
\<close>

type_synonym addr = nat

datatype jsnum = Fin rat | NaN | PosInf | NegInf

datatype jsval =
    Undefined
  | Null
  | Bool bool
  | Num jsnum
  | Str string
  | DateV "int option"
  | Ref addr

type_synonym jsobj = "(string \<times> jsval) list"

type_synonym heap = "jsobj list"

text \<open>
  A date carries its time value: milliseconds since the epoch, or nothing for an invalid
  date (the time value NaN).
\<close>

datatype error =
    TypeError
  | InvariantViolation string
  | Thrown jsval

text \<open>
  \<open>TypeError\<close> is raised by the language itself (a property read on \<^verbatim>\<open>null\<close> or
  \<^verbatim>\<open>undefined\<close>, a call of something that is not a function), \<open>InvariantViolation\<close> by
  the \<^verbatim>\<open>invariant\<close> helper, and \<open>Thrown e\<close> is the exception \<open>e\<close> that a formatter
  supplied by the caller threw.
\<close>

fun truthy :: "jsval \<Rightarrow> bool" where
  "truthy Undefined = False"
| "truthy Null = False"
| "truthy (Bool b) = b"
| "truthy (Num (Fin q)) = (q \<noteq> 0)"
| "truthy (Num NaN) = False"
| "truthy (Num PosInf) = True"
| "truthy (Num NegInf) = True"
| "truthy (Str s) = (s \<noteq> [])"
| "truthy (DateV t) = True"
| "truthy (Ref a) = True"

definition props :: "heap \<Rightarrow> addr \<Rightarrow> jsobj" where
  "props h a = (if a < length h then h ! a else [])"

text \<open>
  \<^verbatim>\<open>null\<close> and \<^verbatim>\<open>undefined\<close> have no properties at all: reading one, destructuring
  them or calling a method on them raises a \<^verbatim>\<open>TypeError\<close>.
\<close>

fun nullish :: "jsval \<Rightarrow> bool" where
  "nullish Undefined = True"
| "nullish Null = True"
| "nullish v = False"

text \<open>The value of \<^verbatim>\<open>o[name]\<close> for an \<open>o\<close> that is not nullish.\<close>

fun getprop :: "heap \<Rightarrow> jsval \<Rightarrow> string \<Rightarrow> jsval" where
  "getprop h (Ref a) name = (case map_of (props h a) name of None \<Rightarrow> Undefined | Some v \<Rightarrow> v)"
| "getprop h v name = Undefined"

text \<open>Whether \<open>name\<close> is an own property of an \<open>o\<close> that is not nullish.\<close>

fun own :: "heap \<Rightarrow> jsval \<Rightarrow> string \<Rightarrow> bool" where
  "own h (Ref a) name = (name \<in> set (map fst (props h a)))"
| "own h v name = False"

text \<open>\<^verbatim>\<open>o[name]\<close>\<close>

definition getv :: "heap \<Rightarrow> jsval \<Rightarrow> string \<Rightarrow> error + jsval" where
  "getv h v name = (if nullish v then Inl TypeError else Inr (getprop h v name))"

text \<open>\<^verbatim>\<open>o.hasOwnProperty(name)\<close>\<close>

definition hasOwnProperty :: "heap \<Rightarrow> jsval \<Rightarrow> string \<Rightarrow> error + bool" where
  "hasOwnProperty h v name = (if nullish v then Inl TypeError else Inr (own h v name))"

text \<open>\<^verbatim>\<open>Object.keys(o)\<close>\<close>

fun Object_keys :: "heap \<Rightarrow> jsval \<Rightarrow> error + string list" where
  "Object_keys h Undefined = Inl TypeError"
| "Object_keys h Null = Inl TypeError"
| "Object_keys h (Ref a) = Inr (map fst (props h a))"
| "Object_keys h v = Inr []"

text \<open>\<^verbatim>\<open>a || b\<close> for operands without effects.\<close>

definition or_else :: "jsval \<Rightarrow> jsval \<Rightarrow> jsval" where
  "or_else a b = (if truthy a then a else b)"

text \<open>
  \<^verbatim>\<open>o[name] = v\<close> on the object at address \<open>a\<close>: an existing property keeps its place,
  a new one goes last.
\<close>

definition setv :: "heap \<Rightarrow> addr \<Rightarrow> string \<Rightarrow> jsval \<Rightarrow> heap" where
  "setv h a name v = (if a < length h then h[a := AList.update name v (h ! a)] else h)"

text \<open>
  An object literal: a fresh object with the given properties. Nothing can tell in which
  order the object is allocated and its property values are computed, so the model
  computes the values first.
\<close>

definition new_object :: "heap \<Rightarrow> jsobj \<Rightarrow> addr \<times> heap" where
  "new_object h obj = (length h, h @ [obj])"

text \<open>A parameter declared \<^verbatim>\<open>p = {}\<close>: the default is taken when the argument is \<^verbatim>\<open>undefined\<close>.\<close>

definition default_obj :: "heap \<Rightarrow> jsval \<Rightarrow> jsval \<times> heap" where
  "default_obj h v =
     (if v = Undefined then (let (a, h') = new_object h [] in (Ref a, h')) else (v, h))"

section \<open>The environment of the module\<close>

text \<open>
  What the module imports and the natives it calls. The four option whitelists are
  \<^verbatim>\<open>Object.keys\<close> of the prop-type tables of \<^verbatim>\<open>./types\<close>, and \<^verbatim>\<open>escape\<close> comes from
  \<^verbatim>\<open>./utils\<close>; neither file is part of the sources at hand, so they are parameters here.
  So are the build mode and the string conversions of the host.
\<close>

record env =
  NODE_ENV :: jsval
  DATE_TIME_FORMAT_OPTIONS :: "string list"
  NUMBER_FORMAT_OPTIONS :: "string list"
  RELATIVE_FORMAT_OPTIONS :: "string list"
  PLURAL_FORMAT_OPTIONS :: "string list"
  escape :: "string \<Rightarrow> string"
  Date_parse :: "string \<Rightarrow> int option"
  Number_toString :: "jsnum \<Rightarrow> string"
  Date_toString :: "int option \<Rightarrow> string"
  Object_toString :: "jsobj \<Rightarrow> string"
  toLowerCase :: "string \<Rightarrow> string"

text \<open>\<^verbatim>\<open>process.env.NODE_ENV === 'production'\<close>\<close>

definition production :: "env \<Rightarrow> bool" where
  "production E = (NODE_ENV E = Str ''production'')"

text \<open>The conversion to a string that a template literal and a property key apply.\<close>

fun ToString :: "env \<Rightarrow> heap \<Rightarrow> jsval \<Rightarrow> string" where
  "ToString E h Undefined = ''undefined''"
| "ToString E h Null = ''null''"
| "ToString E h (Bool b) = (if b then ''true'' else ''false'')"
| "ToString E h (Num n) = Number_toString E n"
| "ToString E h (Str s) = s"
| "ToString E h (DateV t) = Date_toString E t"
| "ToString E h (Ref a) = Object_toString E (props h a)"

text \<open>
  \<^verbatim>\<open>TimeClip\<close>: a number becomes a time value when it is finite and at most 8.64e15 in
  magnitude, truncated towards zero.
\<close>

fun TimeClip :: "jsnum \<Rightarrow> int option" where
  "TimeClip (Fin q) =
     (if \<bar>q\<bar> > 8640000000000000 then None
      else Some (if q < 0 then - \<lfloor>- q\<rfloor> else \<lfloor>q\<rfloor>))"
| "TimeClip n = None"

text \<open>\<^verbatim>\<open>new Date(value)\<close>\<close>

fun newDate :: "env \<Rightarrow> heap \<Rightarrow> jsval \<Rightarrow> jsval" where
  "newDate E h Undefined = DateV None"
| "newDate E h Null = DateV (Some 0)"
| "newDate E h (Bool b) = DateV (Some (if b then 1 else 0))"
| "newDate E h (Num n) = DateV (TimeClip n)"
| "newDate E h (Str s) = DateV (Date_parse E s)"
| "newDate E h (DateV t) = DateV t"
| "newDate E h (Ref a) = DateV (Date_parse E (Object_toString E (props h a)))"

text \<open>\<^verbatim>\<open>isFinite(d)\<close> for a date \<open>d\<close>: its time value is a number other than NaN.\<close>

fun isFinite :: "jsval \<Rightarrow> bool" where
  "isFinite (DateV t) = (t \<noteq> None)"
| "isFinite v = False"

section \<open>The formatters supplied by the caller\<close>

text \<open>
  Every function of the module takes a \<^verbatim>\<open>state\<close> object whose methods build (and
  memoize) the formatters. They are code of the caller: each is a function of its
  arguments and the store that returns a result or throws, and may change the store.
  A formatter is its \<^verbatim>\<open>format\<close> method.
\<close>

type_synonym formatter = "jsval list \<Rightarrow> heap \<Rightarrow> (jsval + jsval) \<times> heap"

record state =
  getDateTimeFormat :: "jsval \<Rightarrow> jsval \<Rightarrow> heap \<Rightarrow> (jsval + formatter) \<times> heap"
  getNumberFormat :: "jsval \<Rightarrow> jsval \<Rightarrow> heap \<Rightarrow> (jsval + formatter) \<times> heap"
  getRelativeFormat :: "jsval \<Rightarrow> jsval \<Rightarrow> heap \<Rightarrow> (jsval + formatter) \<times> heap"
  getPluralFormat :: "jsval \<Rightarrow> jsval \<Rightarrow> heap \<Rightarrow> (jsval + formatter) \<times> heap"
  getMessageFormat :: "jsval \<Rightarrow> jsval \<Rightarrow> jsval \<Rightarrow> heap \<Rightarrow> (jsval + formatter) \<times> heap"
  now :: "heap \<Rightarrow> (jsval + jsval) \<times> heap"

text \<open>
  What a call of the module yields: the value returned or the error raised, the store
  after the call, and the lines the call itself wrote with \<^verbatim>\<open>console.error\<close>.
\<close>

type_synonym outcome = "(error + jsval) \<times> heap \<times> string list"

text \<open>
  \<^verbatim>\<open>ctor.format(args)\<close> outside any \<^verbatim>\<open>try\<close>: \<open>ctor\<close> is the pending call of one of the
  state's constructors, \<open>args\<close> the evaluation of the argument list, which takes place
  once the constructor has returned its formatter. What either of them or the formatter
  throws reaches the caller.
\<close>

type_synonym arguments = "heap \<Rightarrow> (jsval + jsval list) \<times> heap"

definition invoke ::
  "(heap \<Rightarrow> (jsval + formatter) \<times> heap) \<Rightarrow> arguments \<Rightarrow> heap \<Rightarrow> string list \<Rightarrow> outcome" where
  "invoke ctor args h msgs =
     (case ctor h of
        (Inl e, h1) \<Rightarrow> (Inl (Thrown e), h1, msgs)
      | (Inr formatter, h1) \<Rightarrow>
          (case args h1 of
             (Inl e, h2) \<Rightarrow> (Inl (Thrown e), h2, msgs)
           | (Inr vs, h2) \<Rightarrow>
               (case formatter vs h2 of
                  (Inl e, h3) \<Rightarrow> (Inl (Thrown e), h3, msgs)
                | (Inr r, h3) \<Rightarrow> (Inr r, h3, msgs))))"

text \<open>An argument list of values that are already computed.\<close>

definition plain_args :: "jsval list \<Rightarrow> arguments" where
  "plain_args vs h = (Inr vs, h)"

section \<open>The module\<close>

definition dq :: string where
  "dq = [CHR 0x22]"

definition nl :: string where
  "nl = [CHR 0x0A]"

subsection \<open>filterFormatOptions\<close>

text \<open>
  The \<^verbatim>\<open>reduce\<close> over the whitelist, with the accumulator \<open>opts\<close> (always the same
  object) and the names still to visit.
\<close>

fun filterFormatOptions_reduce ::
  "heap \<Rightarrow> jsval \<Rightarrow> jsval \<Rightarrow> addr \<Rightarrow> string list \<Rightarrow> (error + jsval) \<times> heap" where
  "filterFormatOptions_reduce h obj defaults opts [] = (Inr (Ref opts), h)"
| "filterFormatOptions_reduce h obj defaults opts (name # whitelist) =
     (case hasOwnProperty h obj name of
        Inl e \<Rightarrow> (Inl e, h)
      | Inr in_obj \<Rightarrow>
          if in_obj then
            (case getv h obj name of
               Inl e \<Rightarrow> (Inl e, h)
             | Inr v \<Rightarrow> filterFormatOptions_reduce (setv h opts name v) obj defaults opts whitelist)
          else
            (case hasOwnProperty h defaults name of
               Inl e \<Rightarrow> (Inl e, h)
             | Inr in_defaults \<Rightarrow>
                 if in_defaults then
                   (case getv h defaults name of
                      Inl e \<Rightarrow> (Inl e, h)
                    | Inr v \<Rightarrow>
                        filterFormatOptions_reduce (setv h opts name v) obj defaults opts whitelist)
                 else filterFormatOptions_reduce h obj defaults opts whitelist))"

definition filterFormatOptions ::
  "heap \<Rightarrow> string list \<Rightarrow> jsval \<Rightarrow> jsval \<Rightarrow> (error + jsval) \<times> heap" where
  "filterFormatOptions h0 whitelist obj defaults0 =
     (let (defaults, h1) = default_obj h0 defaults0;
          (opts, h2) = new_object h1 []
      in filterFormatOptions_reduce h2 obj defaults opts whitelist)"

subsection \<open>getNamedFormat\<close>

text \<open>
  \<^verbatim>\<open>formats && formats[type] && formats[type][name]\<close>: each read is of a truthy value,
  so none can raise. A function that falls off its end returns \<^verbatim>\<open>undefined\<close>.
\<close>

definition getNamedFormat ::
  "env \<Rightarrow> heap \<Rightarrow> jsval \<Rightarrow> string \<Rightarrow> jsval \<Rightarrow> jsval \<times> string list" where
  "getNamedFormat E h formats ty name =
     (let format =
        (if truthy formats then
           (if truthy (getprop h formats ty)
            then getprop h (getprop h formats ty) (ToString E h name)
            else getprop h formats ty)
         else formats)
      in if truthy format then (format, [])
         else (Undefined,
               if \<not> production E
               then [''[React Intl] No '' @ ty @ '' format named: '' @ ToString E h name]
               else []))"

subsection \<open>The delegating functions\<close>

text \<open>
  \<^verbatim>\<open>let defaults = format && getNamedFormat(formats, type, format)\<close>, with the lines the
  lookup wrote to the console.
\<close>

definition named_defaults ::
  "env \<Rightarrow> heap \<Rightarrow> jsval \<Rightarrow> string \<Rightarrow> jsval \<Rightarrow> jsval \<times> string list" where
  "named_defaults E h formats ty format =
     (if truthy format then getNamedFormat E h formats ty format else (format, []))"

definition formatDate :: "env \<Rightarrow> heap \<Rightarrow> jsval \<Rightarrow> state \<Rightarrow> jsval \<Rightarrow> jsval \<Rightarrow> outcome" where
  "formatDate E h0 config state value options0 =
     (let (options, h) = default_obj h0 options0
      in if nullish config then (Inl TypeError, h, [])
         else
           let locale = getprop h config ''locale'';
               formats = getprop h config ''formats''
           in if nullish options then (Inl TypeError, h, [])
              else
                let format = getprop h options ''format'';
                    date = newDate E h value;
                    (defaults, msgs) = named_defaults E h formats ''date'' format
                in case filterFormatOptions h (DATE_TIME_FORMAT_OPTIONS E) options defaults of
                     (Inl e, h') \<Rightarrow> (Inl e, h', msgs)
                   | (Inr filteredOptions, h') \<Rightarrow>
                       invoke (getDateTimeFormat state locale filteredOptions)
                         (plain_args [date]) h' msgs)"

definition formatTime :: "env \<Rightarrow> heap \<Rightarrow> jsval \<Rightarrow> state \<Rightarrow> jsval \<Rightarrow> jsval \<Rightarrow> outcome" where
  "formatTime E h0 config state value options0 =
     (let (options, h) = default_obj h0 options0
      in if nullish config then (Inl TypeError, h, [])
         else
           let locale = getprop h config ''locale'';
               formats = getprop h config ''formats''
           in if nullish options then (Inl TypeError, h, [])
              else
                let format = getprop h options ''format'';
                    date = newDate E h value;
                    (defaults, msgs) = named_defaults E h formats ''time'' format
                in case filterFormatOptions h (DATE_TIME_FORMAT_OPTIONS E) options defaults of
                     (Inl e, h') \<Rightarrow> (Inl e, h', msgs)
                   | (Inr filteredOptions, h') \<Rightarrow>
                       invoke (getDateTimeFormat state locale filteredOptions)
                         (plain_args [date]) h' msgs)"

text \<open>
  The argument list of \<^verbatim>\<open>format\<close> in \<^verbatim>\<open>formatRelative\<close>:
  \<^verbatim>\<open>(date, {now: isFinite(now) ? now : state.now()})\<close>, where \<open>now_given\<close> is
  \<^verbatim>\<open>new Date(options.now)\<close>.
\<close>

definition relative_args :: "state \<Rightarrow> jsval \<Rightarrow> jsval \<Rightarrow> arguments" where
  "relative_args state date now_given h =
     (case (if isFinite now_given then (Inr now_given, h) else now state h) of
        (Inl e, h1) \<Rightarrow> (Inl e, h1)
      | (Inr n, h1) \<Rightarrow>
          let (arg, h2) = new_object h1 [(''now'', n)]
          in (Inr [date, Ref arg], h2))"

definition formatRelative :: "env \<Rightarrow> heap \<Rightarrow> jsval \<Rightarrow> state \<Rightarrow> jsval \<Rightarrow> jsval \<Rightarrow> outcome" where
  "formatRelative E h0 config state value options0 =
     (let (options, h) = default_obj h0 options0
      in if nullish config then (Inl TypeError, h, [])
         else
           let locale = getprop h config ''locale'';
               formats = getprop h config ''formats''
           in if nullish options then (Inl TypeError, h, [])
              else
                let format = getprop h options ''format'';
                    date = newDate E h value;
                    now_given = newDate E h (getprop h options ''now'');
                    (defaults, msgs) = named_defaults E h formats ''relative'' format
                in case filterFormatOptions h (RELATIVE_FORMAT_OPTIONS E) options defaults of
                     (Inl e, h') \<Rightarrow> (Inl e, h', msgs)
                   | (Inr filteredOptions, h') \<Rightarrow>
                       invoke (getRelativeFormat state locale filteredOptions)
                         (relative_args state date now_given) h' msgs)"

definition formatNumber :: "env \<Rightarrow> heap \<Rightarrow> jsval \<Rightarrow> state \<Rightarrow> jsval \<Rightarrow> jsval \<Rightarrow> outcome" where
  "formatNumber E h0 config state value options0 =
     (let (options, h) = default_obj h0 options0
      in if nullish config then (Inl TypeError, h, [])
         else
           let locale = getprop h config ''locale'';
               formats = getprop h config ''formats''
           in if nullish options then (Inl TypeError, h, [])
              else
                let format = getprop h options ''format'';
                    (defaults, msgs) = named_defaults E h formats ''number'' format
                in case filterFormatOptions h (NUMBER_FORMAT_OPTIONS E) options defaults of
                     (Inl e, h') \<Rightarrow> (Inl e, h', msgs)
                   | (Inr filteredOptions, h') \<Rightarrow>
                       invoke (getNumberFormat state locale filteredOptions)
                         (plain_args [value]) h' msgs)"

definition formatPlural :: "env \<Rightarrow> heap \<Rightarrow> jsval \<Rightarrow> state \<Rightarrow> jsval \<Rightarrow> jsval \<Rightarrow> outcome" where
  "formatPlural E h0 config state value options0 =
     (let (options, h) = default_obj h0 options0
      in if nullish config then (Inl TypeError, h, [])
         else
           let locale = getprop h config ''locale''
           in case filterFormatOptions h (PLURAL_FORMAT_OPTIONS E) options Undefined of
                (Inl e, h') \<Rightarrow> (Inl e, h', [])
              | (Inr filteredOptions, h') \<Rightarrow>
                  invoke (getPluralFormat state locale filteredOptions)
                    (plain_args [value]) h' [])"

subsection \<open>formatMessage\<close>

text \<open>
  The body of both \<^verbatim>\<open>try\<close> blocks: build the formatter of a message source, then
  format the values with it. \<open>Inl e\<close> is the exception the \<^verbatim>\<open>catch\<close> clause receives.
\<close>

definition try_format ::
  "state \<Rightarrow> jsval \<Rightarrow> jsval \<Rightarrow> jsval \<Rightarrow> jsval \<Rightarrow> heap \<Rightarrow> (jsval + jsval) \<times> heap" where
  "try_format state source locale formats values h =
     (case getMessageFormat state source locale formats h of
        (Inl e, h') \<Rightarrow> (Inl e, h')
      | (Inr formatter, h') \<Rightarrow> formatter [values] h')"

text \<open>\<^verbatim>\<open>s.toLowerCase()\<close>: a method of strings only.\<close>

fun call_toLowerCase :: "env \<Rightarrow> jsval \<Rightarrow> error + string" where
  "call_toLowerCase E (Str s) = Inr (toLowerCase E s)"
| "call_toLowerCase E v = Inl TypeError"

text \<open>
  Lines 146 to 176, the catalog message: the outcome is the value of
  \<^verbatim>\<open>formattedMessage\<close> afterwards (\<^verbatim>\<open>undefined\<close> when nothing was assigned).
\<close>

definition format_catalog_message ::
  "env \<Rightarrow> state \<Rightarrow> jsval \<Rightarrow> jsval \<Rightarrow> jsval \<Rightarrow> jsval \<Rightarrow> jsval \<Rightarrow> jsval \<Rightarrow> jsval \<Rightarrow> heap \<Rightarrow> outcome" where
  "format_catalog_message E state locale formats defaultLocale msgid defaultMessage message values h =
     (if truthy message then
        (case try_format state message locale formats values h of
           (Inr formattedMessage, h') \<Rightarrow> (Inr formattedMessage, h', [])
         | (Inl e, h') \<Rightarrow>
             (Inr Undefined, h',
              if \<not> production E then
                [''[React Intl] Error formatting message: '' @ dq @ ToString E h' msgid @ dq @
                 '' for locale: '' @ dq @ ToString E h' locale @ dq @
                 (if truthy defaultMessage then '', using default message as fallback.'' else []) @
                 nl @ ToString E h' e]
              else []))
      else if \<not> production E then
        (if \<not> truthy defaultMessage then
           (Inr Undefined, h,
            [''[React Intl] Missing message: '' @ dq @ ToString E h msgid @ dq @
             '' for locale: '' @ dq @ ToString E h locale @ dq])
         else if \<not> truthy locale then (Inr Undefined, h, [])
         else
           (case call_toLowerCase E locale of
              Inl e \<Rightarrow> (Inl e, h, [])
            | Inr l \<Rightarrow>
                (case call_toLowerCase E defaultLocale of
                   Inl e \<Rightarrow> (Inl e, h, [])
                 | Inr d \<Rightarrow>
                     (Inr Undefined, h,
                      if l \<noteq> d then
                        [''[React Intl] Missing message: '' @ dq @ ToString E h msgid @ dq @
                         '' for locale: '' @ dq @ ToString E h locale @ dq @
                         '', using default message as fallback.'']
                      else []))))
      else (Inr Undefined, h, []))"

text \<open>
  Lines 178 to 193, the default message: \<open>formattedMessage\<close> is the value so far, the
  result the value afterwards. A failed attempt assigns nothing.
\<close>

definition format_default_message ::
  "env \<Rightarrow> state \<Rightarrow> jsval \<Rightarrow> jsval \<Rightarrow> jsval \<Rightarrow> jsval \<Rightarrow> jsval \<Rightarrow> jsval \<Rightarrow> heap
     \<Rightarrow> jsval \<times> heap \<times> string list" where
  "format_default_message E state defaultLocale defaultFormats msgid defaultMessage values
       formattedMessage h =
     (if \<not> truthy formattedMessage \<and> truthy defaultMessage then
        (case try_format state defaultMessage defaultLocale defaultFormats values h of
           (Inr formatted, h') \<Rightarrow> (formatted, h', [])
         | (Inl e, h') \<Rightarrow>
             (formattedMessage, h',
              if \<not> production E then
                [''[React Intl] Error formatting the default message for: '' @ dq @
                 ToString E h' msgid @ dq @ nl @ ToString E h' e]
              else []))
      else (formattedMessage, h, []))"

text \<open>\<^verbatim>\<open>messages && messages[id]\<close>\<close>

definition lookup_message :: "env \<Rightarrow> heap \<Rightarrow> jsval \<Rightarrow> jsval \<Rightarrow> jsval" where
  "lookup_message E h messages msgid =
     (if truthy messages then getprop h messages (ToString E h msgid) else messages)"

definition formatMessage :: "env \<Rightarrow> heap \<Rightarrow> jsval \<Rightarrow> state \<Rightarrow> jsval \<Rightarrow> jsval \<Rightarrow> outcome" where
  "formatMessage E h0 config state messageDescriptor0 values0 =
     (let (messageDescriptor, h1) = default_obj h0 messageDescriptor0;
          (values, h) = default_obj h1 values0
      in if nullish config then (Inl TypeError, h, [])
         else
           let locale = getprop h config ''locale'';
               formats = getprop h config ''formats'';
               messages = getprop h config ''messages'';
               defaultLocale = getprop h config ''defaultLocale'';
               defaultFormats = getprop h config ''defaultFormats''
           in if nullish messageDescriptor then (Inl TypeError, h, [])
              else
                let msgid = getprop h messageDescriptor ''id'';
                    defaultMessage = getprop h messageDescriptor ''defaultMessage''
                in if \<not> truthy msgid then
                     (Inl (InvariantViolation
                        ''[React Intl] An `id` must be provided to format a message.''), h, [])
                   else
                     let message = lookup_message E h messages msgid
                     in case Object_keys h values of
                          Inl e \<Rightarrow> (Inl e, h, [])
                        | Inr ks \<Rightarrow>
                            let hasValues = (length ks > 0)
                            in if \<not> hasValues \<and> production E then
                                 (Inr (or_else message (or_else defaultMessage msgid)), h, [])
                               else
                                 (case format_catalog_message E state locale formats defaultLocale
                                         msgid defaultMessage message values h of
                                    (Inl e, h2, msgs1) \<Rightarrow> (Inl e, h2, msgs1)
                                  | (Inr formatted1, h2, msgs1) \<Rightarrow>
                                      (case format_default_message E state defaultLocale
                                              defaultFormats msgid defaultMessage values formatted1 h2 of
                                         (formattedMessage, h3, msgs2) \<Rightarrow>
                                           (Inr (or_else formattedMessage
                                                  (or_else message (or_else defaultMessage msgid))),
                                            h3,
                                            msgs1 @ msgs2 @
                                            (if \<not> truthy formattedMessage \<and> \<not> production E then
                                               [''[React Intl] Cannot format message: '' @ dq @
                                                ToString E h3 msgid @ dq @ '', using message '' @
                                                (if truthy (or_else message defaultMessage)
                                                 then ''source'' else ''id'') @
                                                '' as fallback.'']
                                             else [])))))"

subsection \<open>formatHTMLMessage\<close>

text \<open>
  The \<^verbatim>\<open>reduce\<close> over the keys of \<^verbatim>\<open>rawValues\<close>, with the accumulator \<open>escaped\<close> and
  the names still to visit. It runs only when \<^verbatim>\<open>Object.keys(rawValues)\<close> returned, so
  \<^verbatim>\<open>rawValues\<close> is not nullish and the reads cannot raise.
\<close>

fun escape_reduce :: "env \<Rightarrow> heap \<Rightarrow> jsval \<Rightarrow> addr \<Rightarrow> string list \<Rightarrow> heap" where
  "escape_reduce E h rawValues escaped [] = h"
| "escape_reduce E h rawValues escaped (name # names) =
     (let value = getprop h rawValues name
      in escape_reduce E
           (setv h escaped name (case value of Str s \<Rightarrow> Str (escape E s) | _ \<Rightarrow> value))
           rawValues escaped names)"

definition formatHTMLMessage :: "env \<Rightarrow> heap \<Rightarrow> jsval \<Rightarrow> state \<Rightarrow> jsval \<Rightarrow> jsval \<Rightarrow> outcome" where
  "formatHTMLMessage E h0 config state messageDescriptor rawValues0 =
     (let (rawValues, h1) = default_obj h0 rawValues0
      in case Object_keys h1 rawValues of
           Inl e \<Rightarrow> (Inl e, h1, [])
         | Inr names \<Rightarrow>
             let (escaped, h2) = new_object h1 [];
                 h3 = escape_reduce E h2 rawValues escaped names
             in formatMessage E h3 config state messageDescriptor (Ref escaped))"

section \<open>Notions used to state the properties\<close>





text \<open>
  The store \<open>h'\<close> keeps the objects of \<open>h\<close> at the addresses in \<open>P\<close>: nothing was freed
  and each of these objects has the properties it had.
\<close>

definition keeps :: "addr set \<Rightarrow> heap \<Rightarrow> heap \<Rightarrow> bool" where
  "keeps P h h' = (length h \<le> length h' \<and> (\<forall>a\<in>P. a < length h \<longrightarrow> h' ! a = h ! a))"

text \<open>
  The caller's formatters respect \<open>P\<close> when no constructor, no formatter a constructor
  returns and no call of \<^verbatim>\<open>now\<close> changes an object at an address in \<open>P\<close>. They are free
  to allocate and to change every other object, their caches for one.
\<close>

definition ctor_respects ::
  "addr set \<Rightarrow> (heap \<Rightarrow> (jsval + formatter) \<times> heap) \<Rightarrow> bool" where
  "ctor_respects P ctor =
     (\<forall>h. keeps P h (snd (ctor h)) \<and>
          (\<forall>f. fst (ctor h) = Inr f \<longrightarrow> (\<forall>vs h'. keeps P h' (snd (f vs h')))))"

definition state_respects :: "addr set \<Rightarrow> state \<Rightarrow> bool" where
  "state_respects P state =
     ((\<forall>l o'. ctor_respects P (getDateTimeFormat state l o')) \<and>
      (\<forall>l o'. ctor_respects P (getNumberFormat state l o')) \<and>
      (\<forall>l o'. ctor_respects P (getRelativeFormat state l o')) \<and>
      (\<forall>l o'. ctor_respects P (getPluralFormat state l o')) \<and>
      (\<forall>s l f. ctor_respects P (getMessageFormat state s l f)) \<and>
      (\<forall>h. keeps P h (snd (now state h))))"


text \<open>The values of the HTML variant: strings escaped, everything else as it was.\<close>

definition escaped_entry :: "env \<Rightarrow> string \<times> jsval \<Rightarrow> string \<times> jsval" where
  "escaped_entry E kv = (fst kv, case snd kv of Str s \<Rightarrow> Str (escape E s) | v \<Rightarrow> v)"







section \<open>Sample data\<close>

fun sample_escape_char :: "char \<Rightarrow> string" where
  "sample_escape_char c =
     (if c = CHR ''&'' then ''&amp;''
      else if c = CHR ''>'' then ''&gt;''
      else if c = CHR ''<'' then ''&lt;''
      else if c = CHR 0x22 then ''&quot;''
      else if c = CHR 0x27 then ''&#x27;''
      else [c])"

definition sample_escape :: "string \<Rightarrow> string" where
  "sample_escape s = concat (map sample_escape_char s)"

definition sample_env :: "string \<Rightarrow> env" where
  "sample_env mode =
     \<lparr> NODE_ENV = Str mode,
       DATE_TIME_FORMAT_OPTIONS = [''weekday'', ''year'', ''month'', ''day'', ''hour''],
       NUMBER_FORMAT_OPTIONS = [''style'', ''currency''],
       RELATIVE_FORMAT_OPTIONS = [''style'', ''units''],
       PLURAL_FORMAT_OPTIONS = [''style''],
       escape = sample_escape,
       Date_parse = (\<lambda>s. None),
       Number_toString = (\<lambda>n. ''0''),
       Date_toString = (\<lambda>t. ''Invalid Date''),
       Object_toString = (\<lambda>obj. ''[object Object]''),
       toLowerCase = (\<lambda>s. s) \<rparr>"

text \<open>
  A toy state. Its constructors memoize by allocating a cache entry; a formatter returns
  the names of the options it was built with, then the values it is given, as text. The
  message constructor rejects a source whose braces do not pair up and otherwise gives
  a formatter that returns the source, wrapped in brackets.
\<close>

fun show_prim :: "jsval \<Rightarrow> string" where
  "show_prim (Str s) = s"
| "show_prim (DateV None) = ''invalid''"
| "show_prim (DateV (Some t)) = (if t = 0 then ''epoch'' else ''date'')"
| "show_prim v = ''?''"

fun show_value :: "heap \<Rightarrow> jsval \<Rightarrow> string" where
  "show_value h (Ref a) =
     concat (map (\<lambda>kv. fst kv @ ''='' @ show_prim (snd kv) @ '';'') (props h a))"
| "show_value h v = show_prim v"

definition sample_ctor :: "jsval \<Rightarrow> jsval \<Rightarrow> heap \<Rightarrow> (jsval + formatter) \<times> heap" where
  "sample_ctor locale opts h =
     (Inr (\<lambda>vs h'. (Inr (Str (show_value h opts @ concat (map (show_value h') vs))), h')),
      h @ [[(''cached'', locale)]])"

definition sample_getMessageFormat ::
  "jsval \<Rightarrow> jsval \<Rightarrow> jsval \<Rightarrow> heap \<Rightarrow> (jsval + formatter) \<times> heap" where
  "sample_getMessageFormat source locale formats h =
     (case source of
        Str s \<Rightarrow>
          if length (filter (\<lambda>c. c = CHR ''{'') s) = length (filter (\<lambda>c. c = CHR ''}'') s)
          then (Inr (\<lambda>vs h'. (Inr (Str (''['' @ s @ '']'')), h')), h)
          else (Inl (Str ''SyntaxError''), h)
      | _ \<Rightarrow> (Inl (Str ''TypeError''), h))"

definition sample_state :: state where
  "sample_state =
     \<lparr> getDateTimeFormat = sample_ctor,
       getNumberFormat = sample_ctor,
       getRelativeFormat = sample_ctor,
       getPluralFormat = sample_ctor,
       getMessageFormat = sample_getMessageFormat,
       now = (\<lambda>h. (Inr (DateV (Some 1000)), h)) \<rparr>"


text \<open>
  A store with a configuration at address 0 (its message catalog at 1, its formats at 2,
  the date formats at 3 and the format named \<open>short\<close> at 4), message descriptors at 5
  and 6, and argument objects from 7 on.
\<close>

definition sample_heap :: heap where
  "sample_heap =
     [ [(''locale'', Str ''fr''), (''formats'', Ref 2), (''messages'', Ref 1),
        (''defaultLocale'', Str ''en''), (''defaultFormats'', Ref 2)],
       [(''greeting'', Str ''Bonjour {name''), (''bye'', Str ''Au revoir'')],
       [(''date'', Ref 3), (''number'', Ref 3)],
       [(''short'', Ref 4)],
       [(''year'', Str ''2-digit''), (''month'', Str ''numeric''), (''era'', Str ''short'')],
       [(''id'', Str ''greeting''), (''defaultMessage'', Str ''Hello {name}'')],
       [(''defaultMessage'', Str ''no id'')],
       [(''name'', Str ''<b>Eve</b>''), (''count'', Num (Fin 3))],
       [(''format'', Str ''short''), (''month'', Str ''long''), (''now'', Num (Fin 0)),
        (''secret'', Bool True)],
       [(''id'', Str ''bye'')] ]"

section \<open>Basic facts\<close>

lemma props_fresh_empty [simp]: "props (h @ [[]]) a = props h a"
  by (simp add: props_def nth_append)

lemma getprop_fresh_empty [simp]: "getprop (h @ [[]]) v name = getprop h v name"
  by (cases v) simp_all

lemma own_fresh_empty [simp]: "own (h @ [[]]) v name = own h v name"
  by (cases v) simp_all

lemma ToString_fresh_empty [simp]: "ToString E (h @ [[]]) v = ToString E h v"
  by (cases v) simp_all

lemma newDate_fresh_empty [simp]: "newDate E (h @ [[]]) v = newDate E h v"
  by (cases v) simp_all

lemma Object_keys_fresh_empty [simp]: "Object_keys (h @ [[]]) v = Object_keys h v"
  by (cases v) simp_all

lemma Object_keys_error: "Object_keys h v = Inl e \<Longrightarrow> e = TypeError"
  by (cases v) simp_all

lemma call_toLowerCase_error: "call_toLowerCase E v = Inl e \<Longrightarrow> e = TypeError"
  by (cases v) simp_all

lemma format_catalog_message_error:
  "format_catalog_message E st l f dl i dm m v h = (Inl e, r) \<Longrightarrow> e = TypeError"
  by (auto simp: format_catalog_message_def
           split: if_splits prod.splits sum.splits dest: call_toLowerCase_error)

lemma default_obj_E:
  assumes "default_obj h v = (v', h')"
  obtains "v = Undefined" "v' = Ref (length h)" "h' = h @ [[]]"
  | "v \<noteq> Undefined" "v' = v" "h' = h"
  using assms by (cases "v = Undefined") (auto simp: default_obj_def new_object_def)

lemma getprop_default_obj_other:
  "default_obj h w = (w', h') \<Longrightarrow> getprop h' v name = getprop h v name"
  by (erule default_obj_E) auto

lemma getprop_default_obj_self:
  "default_obj h v = (v', h') \<Longrightarrow> getprop h' v' name = getprop h v name"
  by (erule default_obj_E) (auto simp: props_def)

lemma nullish_default_obj:
  "default_obj h v = (v', h') \<Longrightarrow> nullish v' = (v = Null)"
  by (erule default_obj_E) (cases v; simp)+

lemma formatMessage_error:
  assumes "fst (formatMessage E h config state md values) = Inl e"
  shows "e = TypeError \<or>
         (e = InvariantViolation ''[React Intl] An `id` must be provided to format a message.'' \<and>
          \<not> truthy (getprop h md ''id''))"
proof -
  obtain md' h1 where d1: "default_obj h md = (md', h1)"
    by (cases "default_obj h md")
  obtain values' h2 where d2: "default_obj h1 values = (values', h2)"
    by (cases "default_obj h1 values")
  have id_eq: "getprop h2 md' ''id'' = getprop h md ''id''"
    using getprop_default_obj_other[OF d2, of md' "''id''"] getprop_default_obj_self[OF d1, of "''id''"]
    by simp
  from assms show ?thesis
    unfolding formatMessage_def d1 d2 Let_def prod.case id_eq[symmetric]
    by (auto split: if_splits sum.splits prod.splits
             dest: Object_keys_error format_catalog_message_error)
qed

lemma formatMessage_no_id:
  assumes "\<not> nullish config" "md \<noteq> Null" "\<not> truthy (getprop h md ''id'')"
  shows "fst (formatMessage E h config state md values) =
           Inl (InvariantViolation ''[React Intl] An `id` must be provided to format a message.'')"
proof -
  obtain md' h1 where d1: "default_obj h md = (md', h1)"
    by (cases "default_obj h md")
  obtain values' h2 where d2: "default_obj h1 values = (values', h2)"
    by (cases "default_obj h1 values")
  have id_eq: "getprop h2 md' ''id'' = getprop h md ''id''"
    using getprop_default_obj_other[OF d2, of md' "''id''"] getprop_default_obj_self[OF d1, of "''id''"]
    by simp
  have nn: "\<not> nullish md'"
    using d1 assms(2) by (simp add: nullish_default_obj)
  show ?thesis
    unfolding formatMessage_def d1 d2 Let_def prod.case
    using assms(1,3) nn by (simp add: id_eq)
qed

section \<open>The id of a message descriptor\<close>

text \<open>
  Claim C3. \<^verbatim>\<open>formatMessage\<close> requires the message descriptor to carry an id: called
  with a configuration and a descriptor (or none) whose id is absent or falsy, it raises
  the invariant violation; called with a truthy id it never raises it, whatever the
  default message is. The descriptor's id is read in the store of the call; a descriptor
  left out reads as \<^verbatim>\<open>undefined\<close> everywhere.
\<close>

theorem formatMessage_requires_id:
  "(\<not> nullish config \<and> md \<noteq> Null \<and> \<not> truthy (getprop h md ''id'')
      \<longrightarrow> fst (formatMessage E h config state md values) =
          Inl (InvariantViolation ''[React Intl] An `id` must be provided to format a message.''))
   \<and> (truthy (getprop h md ''id'')
      \<longrightarrow> (\<forall>m. fst (formatMessage E h config state md values) \<noteq> Inl (InvariantViolation m)))"
  using formatMessage_no_id[of config md h E state "values"]
        formatMessage_error[of E h config state md "values"]
  by auto

theorem formatMessage_requires_id_witness:
  "fst (formatMessage (sample_env ''production'') sample_heap (Ref 0) sample_state (Ref 6) Undefined) =
     Inl (InvariantViolation ''[React Intl] An `id` must be provided to format a message.'')
   \<and> fst (formatMessage (sample_env ''production'') sample_heap (Ref 0) sample_state Undefined Undefined) =
     Inl (InvariantViolation ''[React Intl] An `id` must be provided to format a message.'')
   \<and> (\<forall>m. fst (formatMessage (sample_env ''production'') sample_heap (Ref 0) sample_state (Ref 9) Undefined)
          \<noteq> Inl (InvariantViolation m))"
  using formatMessage_requires_id[of "Ref 0" "Ref 6" sample_heap "sample_env ''production''" sample_state Undefined]
        formatMessage_requires_id[of "Ref 0" Undefined sample_heap "sample_env ''production''" sample_state Undefined]
        formatMessage_requires_id[of "Ref 0" "Ref 9" sample_heap "sample_env ''production''" sample_state Undefined]
  by (simp add: sample_heap_def props_def)

section \<open>Facts about formatMessage\<close>



















section \<open>The production fast path\<close>






lemma sample_production [simp]:
  "production (sample_env ''production'')" "\<not> production (sample_env ''development'')"
  by (simp_all add: production_def sample_env_def)


section \<open>Errors of the message formatters\<close>





section \<open>The fallback chain\<close>




section \<open>Facts about the option filter and the delegating functions\<close>





lemma length_setv [simp]: "length (setv h a name x) = length h"
  by (simp add: setv_def)
















lemma keeps_default_obj: "default_obj h w = (w', h') \<Longrightarrow> keeps P h h'"
  by (erule default_obj_E) (auto simp: keeps_def nth_append)

lemma keeps_trans: "keeps P h1 h2 \<Longrightarrow> keeps P h2 h3 \<Longrightarrow> keeps P h1 h3"
  by (auto simp: keeps_def)

lemma keeps_refl [simp]: "keeps P h h"
  by (simp add: keeps_def)




section \<open>The option filter on any arguments\<close>
















section \<open>Delegation\<close>




section \<open>Options and named formats\<close>




section \<open>The reference time of formatRelative\<close>



section \<open>Facts about the HTML variant\<close>


lemma fst_escaped_entry [simp]: "fst (escaped_entry E kv) = fst kv"
  by (simp add: escaped_entry_def)




section \<open>The HTML variant\<close>



section \<open>Facts about the store\<close>

lemma keeps_append: "keeps P h0 h \<Longrightarrow> keeps P h0 (h @ xs)"
  by (auto simp: keeps_def nth_append)

lemma keeps_new_object: "keeps P h0 h \<Longrightarrow> keeps P h0 (snd (new_object h obj))"
  by (simp add: new_object_def keeps_append)

lemma keeps_setv: "keeps P h0 h \<Longrightarrow> length h0 \<le> a \<Longrightarrow> keeps P h0 (setv h a name x)"
  by (auto simp: keeps_def setv_def)

lemma keeps_filterFormatOptions_reduce:
  "keeps P h0 h \<Longrightarrow> length h0 \<le> opts \<Longrightarrow>
     keeps P h0 (snd (filterFormatOptions_reduce h obj defaults opts whitelist))"
proof (induction whitelist arbitrary: h)
  case Nil
  then show ?case by simp
next
  case (Cons name whitelist)
  have "keeps P h0 (setv h opts name x)" for x
    using Cons.prems by (rule keeps_setv)
  with Cons show ?case
    by (auto split: sum.splits)
qed

lemma keeps_filterFormatOptions:
  "keeps P h0 h \<Longrightarrow> keeps P h0 (snd (filterFormatOptions h whitelist obj d))"
proof -
  assume k: "keeps P h0 h"
  obtain d' h1 where d1: "default_obj h d = (d', h1)"
    by (cases "default_obj h d")
  have k1: "keeps P h0 h1"
    using k keeps_default_obj[OF d1] by (rule keeps_trans)
  then have "keeps P h0 (h1 @ [[]])" "length h0 \<le> length h1"
    by (simp_all add: keeps_append) (simp add: keeps_def)
  then show ?thesis
    by (simp add: filterFormatOptions_def d1 new_object_def keeps_filterFormatOptions_reduce)
qed

lemma keeps_escape_reduce:
  "keeps P h0 h \<Longrightarrow> length h0 \<le> escaped \<Longrightarrow>
     keeps P h0 (escape_reduce E h raw escaped names)"
  by (induction names arbitrary: h) (simp_all add: keeps_setv Let_def)

lemma keeps_invoke:
  assumes "ctor_respects P ctor" "\<And>h. keeps P h (snd (args h))" "keeps P h0 h"
  shows "keeps P h0 (fst (snd (invoke ctor args h msgs)))"
proof -
  obtain r h1 where c: "ctor h = (r, h1)" by (cases "ctor h")
  have k1: "keeps P h0 h1"
    using assms(1,3) c unfolding ctor_respects_def by (metis keeps_trans snd_conv)
  show ?thesis
  proof (cases r)
    case (Inl e)
    with c k1 show ?thesis by (simp add: invoke_def)
  next
    case (Inr f)
    obtain a h2 where ar: "args h1 = (a, h2)" by (cases "args h1")
    have k2: "keeps P h0 h2"
      using assms(2)[of h1] k1 ar by (auto intro: keeps_trans)
    show ?thesis
    proof (cases a)
      case (Inl e)
      with c Inr ar k2 show ?thesis by (simp add: invoke_def)
    next
      case vs: (Inr vs)
      have "keeps P h2 (snd (f vs h2))"
        using assms(1) c Inr unfolding ctor_respects_def by (metis fst_conv)
      with k2 have "keeps P h0 (snd (f vs h2))" by (rule keeps_trans)
      with c Inr ar vs show ?thesis
        by (auto simp: invoke_def split: prod.splits sum.splits)
    qed
  qed
qed

lemma keeps_plain_args: "keeps P h (snd (plain_args vs h))"
  by (simp add: plain_args_def)

lemma keeps_relative_args:
  assumes "\<And>h. keeps P h (snd (now state h))"
  shows "keeps P h (snd (relative_args state date now_given h))"
proof (cases "isFinite now_given")
  case True
  then show ?thesis
    by (simp add: relative_args_def new_object_def keeps_append)
next
  case False
  obtain r h1 where n: "now state h = (r, h1)" by (cases "now state h")
  then have "keeps P h h1" using assms[of h] by simp
  then have "keeps P h (h1 @ xs)" for xs by (rule keeps_append)
  with False n show ?thesis
    by (cases r) (simp_all add: relative_args_def new_object_def \<open>keeps P h h1\<close>)
qed

lemma keeps_try_format:
  assumes "ctor_respects P (getMessageFormat state source l f)" "keeps P h0 h"
  shows "keeps P h0 (snd (try_format state source l f vs h))"
proof -
  obtain r h1 where c: "getMessageFormat state source l f h = (r, h1)"
    by (cases "getMessageFormat state source l f h")
  have k1: "keeps P h0 h1"
    using assms c unfolding ctor_respects_def by (metis keeps_trans snd_conv)
  show ?thesis
  proof (cases r)
    case (Inl e)
    with c k1 show ?thesis by (simp add: try_format_def)
  next
    case (Inr fm)
    have "keeps P h1 (snd (fm [vs] h1))"
      using assms(1) c Inr unfolding ctor_respects_def by (metis fst_conv)
    with k1 have "keeps P h0 (snd (fm [vs] h1))" by (rule keeps_trans)
    with c Inr show ?thesis by (simp add: try_format_def)
  qed
qed

lemma keeps_format_catalog_message:
  assumes "\<And>s l f. ctor_respects P (getMessageFormat state s l f)" "keeps P h0 h"
  shows "keeps P h0 (fst (snd (format_catalog_message E state l f dl i dm m vs h)))"
  using keeps_try_format[OF assms(1) assms(2), of m l f vs] assms(2)
  by (auto simp: format_catalog_message_def split: prod.splits sum.splits)

lemma keeps_format_default_message:
  assumes "\<And>s l f. ctor_respects P (getMessageFormat state s l f)" "keeps P h0 h"
  shows "keeps P h0 (fst (snd (format_default_message E state dl df i dm vs fm h)))"
  using keeps_try_format[OF assms(1) assms(2), of dm dl df vs] assms(2)
  by (auto simp: format_default_message_def split: prod.splits sum.splits)


lemma keeps_formatDate:
  assumes "state_respects P state"
  shows "keeps P h (fst (snd (formatDate E h config state value options)))"
proof -
  obtain options' h1 where d: "default_obj h options = (options', h1)"
    by (cases "default_obj h options")
  have k1: "keeps P h h1"
    using d by (rule keeps_default_obj)
  have kf: "filterFormatOptions h1 wl ob df = (r, h') \<Longrightarrow> keeps P h h'" for wl ob df r h'
    using keeps_filterFormatOptions[OF k1, of wl ob df] by simp
  have ki: "keeps P h h' \<Longrightarrow>
      keeps P h (fst (snd (invoke (getDateTimeFormat state l fo) (plain_args vs) h' msgs)))"
    for h' l fo msgs vs
    using assms keeps_plain_args unfolding state_respects_def by (intro keeps_invoke) auto
  show ?thesis
    unfolding formatDate_def d Let_def prod.case
    using k1 by (auto split: prod.splits sum.splits dest!: kf intro!: ki)
qed

lemma keeps_formatTime:
  assumes "state_respects P state"
  shows "keeps P h (fst (snd (formatTime E h config state value options)))"
proof -
  obtain options' h1 where d: "default_obj h options = (options', h1)"
    by (cases "default_obj h options")
  have k1: "keeps P h h1"
    using d by (rule keeps_default_obj)
  have kf: "filterFormatOptions h1 wl ob df = (r, h') \<Longrightarrow> keeps P h h'" for wl ob df r h'
    using keeps_filterFormatOptions[OF k1, of wl ob df] by simp
  have ki: "keeps P h h' \<Longrightarrow>
      keeps P h (fst (snd (invoke (getDateTimeFormat state l fo) (plain_args vs) h' msgs)))"
    for h' l fo msgs vs
    using assms keeps_plain_args unfolding state_respects_def by (intro keeps_invoke) auto
  show ?thesis
    unfolding formatTime_def d Let_def prod.case
    using k1 by (auto split: prod.splits sum.splits dest!: kf intro!: ki)
qed

lemma keeps_formatNumber:
  assumes "state_respects P state"
  shows "keeps P h (fst (snd (formatNumber E h config state value options)))"
proof -
  obtain options' h1 where d: "default_obj h options = (options', h1)"
    by (cases "default_obj h options")
  have k1: "keeps P h h1"
    using d by (rule keeps_default_obj)
  have kf: "filterFormatOptions h1 wl ob df = (r, h') \<Longrightarrow> keeps P h h'" for wl ob df r h'
    using keeps_filterFormatOptions[OF k1, of wl ob df] by simp
  have ki: "keeps P h h' \<Longrightarrow>
      keeps P h (fst (snd (invoke (getNumberFormat state l fo) (plain_args vs) h' msgs)))"
    for h' l fo msgs vs
    using assms keeps_plain_args unfolding state_respects_def by (intro keeps_invoke) auto
  show ?thesis
    unfolding formatNumber_def d Let_def prod.case
    using k1 by (auto split: prod.splits sum.splits dest!: kf intro!: ki)
qed

lemma keeps_formatPlural:
  assumes "state_respects P state"
  shows "keeps P h (fst (snd (formatPlural E h config state value options)))"
proof -
  obtain options' h1 where d: "default_obj h options = (options', h1)"
    by (cases "default_obj h options")
  have k1: "keeps P h h1"
    using d by (rule keeps_default_obj)
  have kf: "filterFormatOptions h1 wl ob df = (r, h') \<Longrightarrow> keeps P h h'" for wl ob df r h'
    using keeps_filterFormatOptions[OF k1, of wl ob df] by simp
  have ki: "keeps P h h' \<Longrightarrow>
      keeps P h (fst (snd (invoke (getPluralFormat state l fo) (plain_args vs) h' msgs)))"
    for h' l fo msgs vs
    using assms keeps_plain_args unfolding state_respects_def by (intro keeps_invoke) auto
  show ?thesis
    unfolding formatPlural_def d Let_def prod.case
    using k1 by (auto split: prod.splits sum.splits dest!: kf intro!: ki)
qed

lemma keeps_formatRelative:
  assumes "state_respects P state"
  shows "keeps P h (fst (snd (formatRelative E h config state value options)))"
proof -
  obtain options' h1 where d: "default_obj h options = (options', h1)"
    by (cases "default_obj h options")
  have k1: "keeps P h h1"
    using d by (rule keeps_default_obj)
  have kf: "filterFormatOptions h1 wl ob df = (r, h') \<Longrightarrow> keeps P h h'" for wl ob df r h'
    using keeps_filterFormatOptions[OF k1, of wl ob df] by simp
  have ki: "keeps P h h' \<Longrightarrow>
      keeps P h (fst (snd (invoke (getRelativeFormat state l fo) (relative_args state dt ng) h' msgs)))"
    for h' l fo msgs dt ng
    using assms keeps_relative_args unfolding state_respects_def by (intro keeps_invoke) auto
  show ?thesis
    unfolding formatRelative_def d Let_def prod.case
    using k1 by (auto split: prod.splits sum.splits dest!: kf intro!: ki)
qed

lemma keeps_formatMessage:
  assumes "state_respects P state" "keeps P h0 h"
  shows "keeps P h0 (fst (snd (formatMessage E h config state md values)))"
proof -
  obtain md' h1 where d1: "default_obj h md = (md', h1)"
    by (cases "default_obj h md")
  obtain values' h2 where d2: "default_obj h1 values = (values', h2)"
    by (cases "default_obj h1 values")
  have r: "\<And>s l f. ctor_respects P (getMessageFormat state s l f)"
    using assms(1) by (simp add: state_respects_def)
  have k2: "keeps P h0 h2"
    using assms(2) keeps_default_obj[OF d1] keeps_default_obj[OF d2] by (blast intro: keeps_trans)
  have kc: "format_catalog_message E state l f dl i dm m vs h2 = (x, h3, msgs) \<Longrightarrow> keeps P h0 h3"
    for l f dl i dm m vs x h3 msgs
    using keeps_format_catalog_message[OF r k2, of E l f dl i dm m vs] by simp
  have kd: "keeps P h0 h3 \<Longrightarrow>
      format_default_message E state dl df i dm vs fm h3 = (x, h4, msgs) \<Longrightarrow> keeps P h0 h4"
    for dl df i dm vs fm x h3 h4 msgs
    using keeps_format_default_message[OF r, of h0 h3 E dl df i dm vs fm] by simp
  show ?thesis
    unfolding formatMessage_def d1 d2 Let_def prod.case
    using k2 by (auto split: prod.splits sum.splits dest!: kc dest: kd)
qed

lemma keeps_formatHTMLMessage:
  assumes "state_respects P state"
  shows "keeps P h (fst (snd (formatHTMLMessage E h config state md rawValues)))"
proof -
  obtain raw h1 where d: "default_obj h rawValues = (raw, h1)"
    by (cases "default_obj h rawValues")
  have k1: "keeps P h h1"
    using d by (rule keeps_default_obj)
  then have "keeps P h (h1 @ [[]])" "length h \<le> length h1"
    by (simp_all add: keeps_append) (simp add: keeps_def)
  then have "keeps P h (escape_reduce E (h1 @ [[]]) raw (length h1) names)" for names
    by (rule keeps_escape_reduce)
  then show ?thesis
    unfolding formatHTMLMessage_def d Let_def prod.case new_object_def
    using k1 assms by (auto split: sum.splits intro!: keeps_formatMessage)
qed


lemma keeps_take: "keeps UNIV h h' \<Longrightarrow> take (length h) h' = h"
  by (auto simp: keeps_def intro: nth_equalityI)

lemma sample_state_respects: "state_respects UNIV sample_state"
  by (auto simp: state_respects_def ctor_respects_def sample_state_def sample_ctor_def
        sample_getMessageFormat_def keeps_def nth_append split: jsval.splits if_splits)

section \<open>No input is changed\<close>

text \<open>
  Claim C7. No formatting function changes its inputs. Let \<open>P\<close> be any set of addresses,
  those of the configuration, the options, the values, the message descriptor and all
  they refer to, say, and let the formatters supplied by the caller leave the objects
  at \<open>P\<close> alone. Then after a call of any of the seven functions, whether it returns or
  raises, every object at an address in \<open>P\<close> is what it was before the call: the
  functions themselves write to objects they have allocated only.
\<close>

theorem inputs_not_mutated:
  assumes "state_respects P state"
  shows "keeps P h (fst (snd (formatDate E h config state value options)))
     \<and> keeps P h (fst (snd (formatTime E h config state value options)))
     \<and> keeps P h (fst (snd (formatRelative E h config state value options)))
     \<and> keeps P h (fst (snd (formatNumber E h config state value options)))
     \<and> keeps P h (fst (snd (formatPlural E h config state value options)))
     \<and> keeps P h (fst (snd (formatMessage E h config state messageDescriptor values)))
     \<and> keeps P h (fst (snd (formatHTMLMessage E h config state messageDescriptor rawValues)))"
  using assms
  by (simp add: keeps_formatDate keeps_formatTime keeps_formatRelative keeps_formatNumber
        keeps_formatPlural keeps_formatMessage keeps_formatHTMLMessage)

theorem inputs_not_mutated_witness:
  "take (length sample_heap)
     (fst (snd (formatDate (sample_env ''development'') sample_heap (Ref 0) sample_state
                  (Num (Fin 5)) (Ref 8)))) = sample_heap
   \<and> take (length sample_heap)
     (fst (snd (formatMessage (sample_env ''development'') sample_heap (Ref 0) sample_state
                  (Ref 5) (Ref 7)))) = sample_heap
   \<and> take (length sample_heap)
     (fst (snd (formatHTMLMessage (sample_env ''development'') sample_heap (Ref 0) sample_state
                  (Ref 5) (Ref 7)))) = sample_heap"
  using inputs_not_mutated[OF sample_state_respects, of sample_heap "sample_env ''development''"
      "Ref 0" "Num (Fin 5)" "Ref 8" "Ref 5" "Ref 7" "Ref 7"]
  by (simp add: keeps_take)

section \<open>Facts about delegation\<close>













section \<open>Thin functions over the state\<close>





end
